theory Spec2Isabelle
  imports Complex_Main
begin

section \<open>Data model\<close>

text \<open>
  A hand landmark as the pose estimator delivers it: three coordinates. Python floats
  are modelled as reals (no rounding, no NaN, no signed zero).
\<close>

record landmark =
  x :: real
  y :: real
  z :: real

text \<open>Reading a landmark list out of range raises IndexError in Python.\<close>

datatype error = IndexError | ZeroDivisionError

text \<open>The fields of \<open>SignLanguageRecognizer.__init__\<close>.\<close>

record recognizer =
  last_sign_time :: real
  last_sign :: "string option"
  cooldown :: real
  confidence_threshold :: real

definition recognizer_init :: recognizer where
  "recognizer_init =
     \<lparr>last_sign_time = 0, last_sign = None, cooldown = 1.5, confidence_threshold = 0.8\<rparr>"

section \<open>SignLanguageRecognizer\<close>

text \<open>
  \<open>get_finger_status\<close>: the thumb is extended when its tip (4) lies left of its IP
  joint (3); every other finger when its tip lies above its PIP joint. The largest
  index read is 20, and every index from the lists is read on every call, so a list
  shorter than 21 raises IndexError.
\<close>

definition get_finger_status :: "landmark list \<Rightarrow> error + int list" where
  "get_finger_status landmarks =
     (if length landmarks < 21 then Inl IndexError
      else Inr
        ((if x (landmarks ! 4) < x (landmarks ! 3) then 1 else 0) #
         map (\<lambda>(tip, pip). if y (landmarks ! tip) < y (landmarks ! pip) then 1 else 0)
           (zip [8, 12, 16, 20] [6, 10, 14, 18])))"

definition get_distance :: "landmark \<Rightarrow> landmark \<Rightarrow> real" where
  "get_distance p1 p2 = sqrt ((x p1 - x p2)\<^sup>2 + (y p1 - y p2)\<^sup>2 + (z p1 - z p2)\<^sup>2)"

text \<open>
  \<open>math.atan2\<close> of the Python standard library over the reals: the angle of the point
  \<open>(b, a)\<close> in \<open>(-pi, pi]\<close>, and 0 at the origin.
\<close>

definition atan2 :: "real \<Rightarrow> real \<Rightarrow> real" where
  "atan2 a b =
     (if 0 < b then arctan (a / b)
      else if b < 0 \<and> 0 \<le> a then arctan (a / b) + pi
      else if b < 0 then arctan (a / b) - pi
      else if 0 < a then pi / 2
      else if a < 0 then - (pi / 2)
      else 0)"

definition get_angle :: "landmark \<Rightarrow> landmark \<Rightarrow> landmark \<Rightarrow> real" where
  "get_angle p1 p2 p3 =
     (let radians = atan2 (y p3 - y p2) (x p3 - x p2) - atan2 (y p1 - y p2) (x p1 - x p2);
          angle = \<bar>radians * 180 / pi\<bar>
      in if angle > 180 then 360 - angle else angle)"

text \<open>
  \<open>recognize_sign\<close>: the chain of \<open>if ...: return\<close> statements in the source's order;
  the first test that holds decides, \<open>None\<close> when none does.
\<close>

definition recognize_sign :: "landmark list \<Rightarrow> error + string option" where
  "recognize_sign landmarks =
     (case get_finger_status landmarks of
        Inl e \<Rightarrow> Inl e
      | Inr fingers \<Rightarrow>
          (let thumb_index_dist = get_distance (landmarks ! 4) (landmarks ! 8);
               thumb_middle_dist = get_distance (landmarks ! 4) (landmarks ! 12);
               index_middle_dist = get_distance (landmarks ! 8) (landmarks ! 12);
               palm_x = (x (landmarks ! 0) + x (landmarks ! 5) + x (landmarks ! 9)
                          + x (landmarks ! 13) + x (landmarks ! 17)) / 5;
               palm_y = (y (landmarks ! 0) + y (landmarks ! 5) + y (landmarks ! 9)
                          + y (landmarks ! 13) + y (landmarks ! 17)) / 5
           in Inr
             (if fingers = [1, 0, 0, 0, 0] \<and> y (landmarks ! 4) > y (landmarks ! 8)
                then Some ''A''
              else if fingers = [0, 1, 1, 1, 1] then Some ''B''
              else if sum_list fingers \<ge> 3 \<and> thumb_index_dist > 0.1 \<and> thumb_index_dist < 0.25
                then Some ''C''
              else if fingers = [1, 1, 0, 0, 0] \<and> thumb_middle_dist < 0.08 then Some ''D''
              else if sum_list fingers = 0 then Some ''E''
              else if fingers = [1, 1, 1, 1, 1] \<and> thumb_index_dist < 0.08 then Some ''F''
              else if fingers = [0, 0, 0, 0, 1] then Some ''I''
              else if fingers = [1, 1, 1, 0, 0] \<and> index_middle_dist > 0.08 then Some ''K''
              else if fingers = [1, 1, 0, 0, 0] \<and> thumb_index_dist > 0.15
                      \<and> (let angle = get_angle (landmarks ! 4) (landmarks ! 5) (landmarks ! 8)
                         in 70 < angle \<and> angle < 110)
                then Some ''L''
              else if sum_list fingers \<ge> 3 \<and> thumb_index_dist < 0.08 then Some ''O''
              else if fingers = [0, 1, 1, 0, 0] \<and> index_middle_dist < 0.05 then Some ''U''
              else if fingers = [0, 1, 1, 0, 0] \<and> index_middle_dist > 0.08 then Some ''V''
              else if fingers = [0, 1, 1, 1, 0] then Some ''W''
              else if fingers = [1, 0, 0, 0, 1] then Some ''Y''
              else if sum_list fingers = 5 then Some ''HELLO''
              else if fingers = [1, 1, 1, 1, 1] \<and> y (landmarks ! 8) < y (landmarks ! 0)
                then Some ''THANKS''
              else if fingers = [1, 1, 1, 1, 1] then Some ''PLEASE''
              else if sum_list fingers = 0 \<and> y (landmarks ! 8) < y (landmarks ! 0)
                then Some ''YES''
              else if fingers = [1, 0, 0, 0, 0] \<and> y (landmarks ! 4) < y (landmarks ! 8)
                then Some ''GOOD''
              else if fingers = [1, 1, 0, 0, 0] then Some ''HELP''
              else None)))"

text \<open>
  \<open>is_sign_ready\<close>, with the reading of \<open>time.time()\<close> as the argument
  \<open>current_time\<close>. The result is the returned flag and the recognizer after the call.
\<close>

definition is_sign_ready :: "recognizer \<Rightarrow> string option \<Rightarrow> real \<Rightarrow> bool \<times> recognizer" where
  "is_sign_ready self sign current_time =
     (if sign \<noteq> last_sign self
        then (False, self\<lparr>last_sign := sign, last_sign_time := current_time\<rparr>)
      else if current_time - last_sign_time self \<ge> cooldown self
        then (True, self\<lparr>last_sign_time := current_time\<rparr>)
      else (False, self))"

text \<open>
  A run of calls of \<open>is_sign_ready\<close> on one recognizer, one per pair of a sign and a
  clock reading, in order: the flags returned and the recognizer at the end.
\<close>

fun is_sign_ready_run :: "recognizer \<Rightarrow> (string option \<times> real) list \<Rightarrow> bool list \<times> recognizer" where
  "is_sign_ready_run self [] = ([], self)"
| "is_sign_ready_run self ((sign, t) # rest) =
     (let (b, self') = is_sign_ready self sign t;
          (bs, self'') = is_sign_ready_run self' rest
      in (b # bs, self''))"

section \<open>SignLanguageTranslator\<close>

text \<open>
  The fields of \<open>SignLanguageTranslator\<close> that the recognition loop and the text
  operations read or write; the widgets only display them. \<open>sign_history\<close> is a
  \<open>deque(maxlen=10)\<close>, kept as the list of its entries from oldest to newest.
\<close>

record translator =
  running :: bool
  enabled :: bool
  recognizer :: recognizer
  current_text :: string
  word_buffer :: string
  current_sign :: "string option"
  hold_progress :: real
  total_signs :: int
  session_start :: "real option"
  sign_history :: "string list"

definition translator_init :: translator where
  "translator_init =
     \<lparr>running = False, enabled = False, recognizer = recognizer_init, current_text = [],
      word_buffer = [], current_sign = None, hold_progress = 0, total_signs = 0,
      session_start = None, sign_history = []\<rparr>"

text \<open>
  \<open>deque.append\<close> on a deque of bounded length: the entry is added on the right, and
  when the deque then holds more than \<open>maxlen\<close> entries the leftmost one is dropped.
\<close>

definition deque_append :: "nat \<Rightarrow> 'a list \<Rightarrow> 'a \<Rightarrow> 'a list" where
  "deque_append maxlen d v = (let d' = d @ [v] in if length d' > maxlen then tl d' else d')"

definition add_sign :: "translator \<Rightarrow> string \<Rightarrow> translator" where
  "add_sign self sign =
     self\<lparr>current_text := current_text self @ sign,
          sign_history := deque_append 10 (sign_history self) sign,
          total_signs := total_signs self + 1\<rparr>"

definition add_space :: "translator \<Rightarrow> translator" where
  "add_space self = self\<lparr>current_text := current_text self @ '' ''\<rparr>"

definition backspace :: "translator \<Rightarrow> translator" where
  "backspace self =
     (if current_text self \<noteq> [] then self\<lparr>current_text := butlast (current_text self)\<rparr>
      else self)"

text \<open>
  \<open>clear_text\<close> asks with \<open>messagebox.askyesno\<close> first; the answer is the argument
  \<open>askyesno\<close>.
\<close>

definition clear_text :: "translator \<Rightarrow> bool \<Rightarrow> translator" where
  "clear_text self askyesno =
     (if askyesno then self\<lparr>current_text := [], total_signs := 0, sign_history := []\<rparr>
      else self)"

text \<open>
  The body of \<open>for hand_landmarks in results.multi_hand_landmarks\<close> in
  \<open>update_frame\<close>, without the drawing. \<open>t_hold\<close> is the clock reading taken for the
  hold progress, \<open>t_ready\<close> the one \<open>is_sign_ready\<close> takes. The test \<open>if sign:\<close> fails
  on \<open>None\<close> and on the empty string.
\<close>

definition update_frame_hand ::
    "translator \<Rightarrow> landmark list \<Rightarrow> real \<Rightarrow> real \<Rightarrow> error + translator" where
  "update_frame_hand self landmarks t_hold t_ready =
     (if enabled self then
        (case recognize_sign landmarks of
           Inl e \<Rightarrow> Inl e
         | Inr sign \<Rightarrow>
             (case sign of
                None \<Rightarrow> Inr (self\<lparr>current_sign := None\<rparr>)
              | Some s \<Rightarrow>
                  if s = [] then Inr (self\<lparr>current_sign := None\<rparr>)
                  else if sign = last_sign (recognizer self) \<and> cooldown (recognizer self) = 0
                    then Inl ZeroDivisionError
                  else
                    (let self1 = self\<lparr>current_sign := sign\<rparr>;
                         self2 =
                           (if sign = last_sign (recognizer self1)
                            then self1\<lparr>hold_progress :=
                                   min 100 ((t_hold - last_sign_time (recognizer self1))
                                              / cooldown (recognizer self1) * 100)\<rparr>
                            else self1\<lparr>hold_progress := 0\<rparr>);
                         (ready, r) = is_sign_ready (recognizer self2) sign t_ready;
                         self3 = self2\<lparr>recognizer := r\<rparr>
                     in Inr (if ready then add_sign self3 s else self3))))
      else Inr self)"

text \<open>The \<open>for\<close> loop over the detected hands, each with its two clock readings.\<close>

fun update_frame_hands ::
    "translator \<Rightarrow> (landmark list \<times> real \<times> real) list \<Rightarrow> error + translator" where
  "update_frame_hands self [] = Inr self"
| "update_frame_hands self ((landmarks, t_hold, t_ready) # rest) =
     (case update_frame_hand self landmarks t_hold t_ready of
        Inl e \<Rightarrow> Inl e
      | Inr self' \<Rightarrow> update_frame_hands self' rest)"

text \<open>
  One pass of the \<open>while self.running\<close> loop of \<open>update_frame\<close> on a frame that was
  read: \<open>hands\<close> is \<open>results.multi_hand_landmarks\<close>, empty when no hand was found.
\<close>

definition update_frame_pass ::
    "translator \<Rightarrow> (landmark list \<times> real \<times> real) list \<Rightarrow> error + translator" where
  "update_frame_pass self hands =
     (if hands \<noteq> [] then update_frame_hands self hands
      else if enabled self then Inr (self\<lparr>current_sign := None\<rparr>)
      else Inr self)"

text \<open>
  The loop of \<open>update_frame\<close> over the frames the camera delivers, as far as the list
  goes: \<open>None\<close> is a failed read (\<open>continue\<close>), and the loop is left when \<open>running\<close>
  is off. Drawing, the frame rate and the quit key are left out.
\<close>

fun update_frame ::
    "translator \<Rightarrow> (landmark list \<times> real \<times> real) list option list \<Rightarrow> error + translator" where
  "update_frame self [] = Inr self"
| "update_frame self (frame # rest) =
     (if \<not> running self then Inr self
      else
        (case frame of
           None \<Rightarrow> update_frame self rest
         | Some hands \<Rightarrow>
             (case update_frame_pass self hands of
                Inl e \<Rightarrow> Inl e
              | Inr self' \<Rightarrow> update_frame self' rest)))"

section \<open>Landmark sets used as test inputs\<close>

text \<open>
  Every landmark at \<open>(0.5, 0.5, 0)\<close> but the ones listed. \<open>hand_fist\<close> has no finger
  extended; \<open>hand_A\<close> has the thumb out and its tip below the index tip; \<open>hand_middle\<close>
  has the middle finger up alone; \<open>hand_gap\<close> has index and middle up, their tips 0.06
  apart; \<open>hand_C\<close> has thumb, index and middle out, thumb and index tips 0.2 apart.
\<close>

definition hand_fist :: "landmark list" where
  "hand_fist = replicate 21 \<lparr>x = 0.5, y = 0.5, z = 0\<rparr>"

definition hand_A :: "landmark list" where
  "hand_A = hand_fist[4 := \<lparr>x = 0.4, y = 0.6, z = 0\<rparr>]"

definition hand_middle :: "landmark list" where
  "hand_middle = hand_fist[12 := \<lparr>x = 0.5, y = 0.4, z = 0\<rparr>]"

definition hand_gap :: "landmark list" where
  "hand_gap = hand_fist[8 := \<lparr>x = 0.5, y = 0.4, z = 0\<rparr>, 12 := \<lparr>x = 0.56, y = 0.4, z = 0\<rparr>]"

definition hand_C :: "landmark list" where
  "hand_C = hand_fist[4 := \<lparr>x = 0.3, y = 0.4, z = 0\<rparr>, 8 := \<lparr>x = 0.5, y = 0.4, z = 0\<rparr>,
                      12 := \<lparr>x = 0.5, y = 0.4, z = 0\<rparr>]"

section \<open>Auxiliary facts\<close>

lemma get_distance_same_yz:
  "y p = y q \<Longrightarrow> z p = z q \<Longrightarrow> get_distance p q = \<bar>x p - x q\<bar>"
  by (simp add: get_distance_def)

lemma finger_status_shape:
  "get_finger_status landmarks = Inr fingers \<Longrightarrow>
     \<exists>a b c d e. fingers = [a, b, c, d, e] \<and> a \<in> {0, 1} \<and> b \<in> {0, 1} \<and> c \<in> {0, 1}
        \<and> d \<in> {0, 1} \<and> e \<in> {0, 1}"
  by (auto simp: get_finger_status_def split: if_splits)

lemma finger_status_sum_5:
  "get_finger_status landmarks = Inr fingers \<Longrightarrow>
     sum_list fingers = 5 \<longleftrightarrow> fingers = [1, 1, 1, 1, 1]"
  by (drule finger_status_shape) auto

lemma finger_status_fist: "get_finger_status hand_fist = Inr [0, 0, 0, 0, 0]"
  by (simp add: get_finger_status_def hand_fist_def)

lemma finger_status_A: "get_finger_status hand_A = Inr [1, 0, 0, 0, 0]"
  by (simp add: get_finger_status_def hand_fist_def hand_A_def)

lemma finger_status_gap: "get_finger_status hand_gap = Inr [0, 1, 1, 0, 0]"
  by (simp add: get_finger_status_def hand_fist_def hand_gap_def)

lemma finger_status_C: "get_finger_status hand_C = Inr [1, 1, 1, 0, 0]"
  by (simp add: get_finger_status_def hand_fist_def hand_C_def)

lemma distance_gap: "get_distance (hand_gap ! 8) (hand_gap ! 12) = 0.06"
  by (simp add: get_distance_same_yz hand_fist_def hand_gap_def)

lemma distance_C: "get_distance (hand_C ! 4) (hand_C ! 8) = 0.2"
  by (simp add: get_distance_same_yz hand_fist_def hand_C_def)

lemma recognize_sign_hand_A: "recognize_sign hand_A = Inr (Some ''A'')"
  by (simp add: recognize_sign_def finger_status_A) (simp add: hand_A_def hand_fist_def)

lemma recognize_sign_hand_middle: "recognize_sign hand_middle = Inr None"
  by (simp add: recognize_sign_def get_finger_status_def hand_middle_def hand_fist_def)

lemma recognize_sign_C_rule:
  assumes "get_finger_status landmarks = Inr fingers" and "fingers \<noteq> [0, 1, 1, 1, 1]"
    and "sum_list fingers \<ge> 3"
    and "get_distance (landmarks ! 4) (landmarks ! 8) > 0.1"
    and "get_distance (landmarks ! 4) (landmarks ! 8) < 0.25"
  shows "recognize_sign landmarks = Inr (Some ''C'')"
  using assms by (auto simp add: recognize_sign_def Let_def)

lemma recognize_sign_O_only:
  assumes "get_finger_status landmarks = Inr fingers"
    and "recognize_sign landmarks = Inr (Some ''O'')"
  shows "sum_list fingers \<ge> 3 \<and> get_distance (landmarks ! 4) (landmarks ! 8) < 0.08"
  using assms by (simp add: recognize_sign_def Let_def split: if_splits)

lemma deque_append_bounded: "length d \<le> n \<Longrightarrow> length (deque_append n d v) \<le> n"
  by (simp add: deque_append_def Let_def)

lemma deque_append_full: "length d = n \<Longrightarrow> deque_append n d v = tl (d @ [v])"
  by (simp add: deque_append_def)

lemma deque_append_room: "length d < n \<Longrightarrow> deque_append n d v = d @ [v]"
  by (simp add: deque_append_def)

lemma foldl_deque_append:
  "length d \<le> n \<Longrightarrow> foldl (deque_append n) d vs = drop (length d + length vs - n) (d @ vs)"
proof (induction vs arbitrary: d)
  case Nil
  then show ?case by simp
next
  case (Cons v vs)
  have b: "length (deque_append n d v) \<le> n"
    using Cons.prems by (rule deque_append_bounded)
  show ?case
  proof (cases "length d = n")
    case True
    have step: "deque_append n d v = tl (d @ [v])"
      using True by (rule deque_append_full)
    have len: "length (tl (d @ [v])) = n"
      using True by simp
    have "foldl (deque_append n) d (v # vs) = drop (length vs) (tl (d @ [v]) @ vs)"
      using Cons.IH[OF b] step len by simp
    also have "tl (d @ [v]) @ vs = tl (d @ v # vs)"
      by (cases d) simp_all
    also have "drop (length vs) (tl (d @ v # vs)) = drop (Suc (length vs)) (d @ v # vs)"
      by (simp only: drop_Suc)
    also have "Suc (length vs) = length d + length (v # vs) - n"
      using True by simp
    finally show ?thesis .
  next
    case False
    then have "deque_append n d v = d @ [v]"
      using Cons.prems by (simp add: deque_append_room)
    then show ?thesis
      using Cons.IH[OF b] by simp
  qed
qed

lemma sign_history_foldl:
  "sign_history (foldl add_sign self signs) = foldl (deque_append 10) (sign_history self) signs"
  by (induction signs arbitrary: self) (simp_all add: add_sign_def)

section \<open>HoldConfirmation\<close>

text \<open>
  C1. From the initial recognizer the calls with sign A at the times 0.0, 1.4, 1.5, 1.6
  and 3.0 return false, false, true, false, true. After the confirmation at 1.5 the
  hold start is 1.5, and in general a call that confirms only moves the hold start to
  the current time, so the next call with the same sign confirms exactly when a whole
  cooldown has passed since then.
\<close>

theorem is_sign_ready_hold_timing:
  "is_sign_ready_run recognizer_init
      [(Some ''A'', 0), (Some ''A'', 1.4), (Some ''A'', 1.5), (Some ''A'', 1.6), (Some ''A'', 3)]
     = ([False, False, True, False, True],
        recognizer_init\<lparr>last_sign := Some ''A'', last_sign_time := 3\<rparr>)
   \<and> snd (is_sign_ready_run recognizer_init
        [(Some ''A'', 0), (Some ''A'', 1.4), (Some ''A'', 1.5)])
     = recognizer_init\<lparr>last_sign := Some ''A'', last_sign_time := 1.5\<rparr>
   \<and> (fst (is_sign_ready self sign t) \<longrightarrow>
        snd (is_sign_ready self sign t) = self\<lparr>last_sign_time := t\<rparr>
        \<and> fst (is_sign_ready (snd (is_sign_ready self sign t)) sign t')
            = (cooldown self \<le> t' - t))"
  by (simp add: is_sign_ready_def recognizer_init_def)

theorem is_sign_ready_hold_timing_witness:
  "fst (is_sign_ready (recognizer_init\<lparr>last_sign := Some ''A''\<rparr>) (Some ''A'') 1.5)
   \<and> snd (is_sign_ready (recognizer_init\<lparr>last_sign := Some ''A''\<rparr>) (Some ''A'') 1.5)
       = recognizer_init\<lparr>last_sign := Some ''A'', last_sign_time := 1.5\<rparr>
   \<and> \<not> fst (is_sign_ready
          (snd (is_sign_ready (recognizer_init\<lparr>last_sign := Some ''A''\<rparr>) (Some ''A'') 1.5))
          (Some ''A'') 1.6)"
proof -
  have h: "fst (is_sign_ready (recognizer_init\<lparr>last_sign := Some ''A''\<rparr>) (Some ''A'') 1.5)"
    by (simp add: is_sign_ready_def recognizer_init_def)
  from is_sign_ready_hold_timing
    [of "recognizer_init\<lparr>last_sign := Some ''A''\<rparr>" "Some ''A''" "1.5" "1.6"] h
  show ?thesis
    by (simp add: is_sign_ready_def recognizer_init_def)
qed

text \<open>
  C5. A call with a sign other than the tracked one returns false and makes that sign the
  tracked one, with the current time as its hold start: after A at 0.0 and B at 0.1 the
  second result is false and the hold start of B is 0.1.
\<close>

theorem is_sign_ready_reset_on_change:
  "is_sign_ready_run recognizer_init [(Some ''A'', 0), (Some ''B'', 0.1)]
     = ([False, False], recognizer_init\<lparr>last_sign := Some ''B'', last_sign_time := 0.1\<rparr>)
   \<and> (sign \<noteq> last_sign self \<longrightarrow>
        is_sign_ready self sign t = (False, self\<lparr>last_sign := sign, last_sign_time := t\<rparr>))"
  by (simp add: is_sign_ready_def recognizer_init_def)

theorem is_sign_ready_reset_on_change_witness:
  "Some ''B'' \<noteq> last_sign (recognizer_init\<lparr>last_sign := Some ''A''\<rparr>)
   \<and> is_sign_ready (recognizer_init\<lparr>last_sign := Some ''A''\<rparr>) (Some ''B'') 0.1
       = (False, recognizer_init\<lparr>last_sign := Some ''B'', last_sign_time := 0.1\<rparr>)"
  using is_sign_ready_reset_on_change
    [of "Some ''B''" "recognizer_init\<lparr>last_sign := Some ''A''\<rparr>" "0.1"]
  by simp

section \<open>SignClassifier\<close>

text \<open>
  C10. The distance of two landmarks does not depend on their order.
\<close>

theorem get_distance_symmetric: "get_distance p1 p2 = get_distance p2 p1"
  by (simp add: get_distance_def power2_commute)

text \<open>
  C2. \<open>recognize_sign\<close> returns neither THANKS nor PLEASE on any landmark list: both
  tests need all five fingers extended, and the test for HELLO, which comes first, holds
  whenever five fingers are.
\<close>

theorem recognize_sign_never_THANKS_PLEASE:
  "recognize_sign landmarks \<noteq> Inr (Some ''THANKS'')
   \<and> recognize_sign landmarks \<noteq> Inr (Some ''PLEASE'')"
proof (cases "get_finger_status landmarks")
  case (Inl e)
  then show ?thesis by (simp add: recognize_sign_def)
next
  case (Inr fingers)
  from finger_status_sum_5[OF Inr] show ?thesis
    by (simp add: recognize_sign_def Inr Let_def)
qed

text \<open>
  C3. A landmark list whose finger status has no finger extended is classified E; YES,
  which also asks for no finger extended, comes later and is never returned.
\<close>

theorem recognize_sign_zero_fingers_E:
  "(get_finger_status landmarks = Inr fingers \<and> sum_list fingers = 0
      \<longrightarrow> recognize_sign landmarks = Inr (Some ''E''))
   \<and> recognize_sign landmarks \<noteq> Inr (Some ''YES'')"
  by (auto simp add: recognize_sign_def Let_def split: sum.splits)

theorem recognize_sign_zero_fingers_E_witness:
  "get_finger_status hand_fist = Inr [0, 0, 0, 0, 0] \<and> sum_list [0, 0, 0, 0, 0 :: int] = 0
   \<and> recognize_sign hand_fist = Inr (Some ''E'')"
  using recognize_sign_zero_fingers_E [of hand_fist "[0, 0, 0, 0, 0]"]
  by (simp add: finger_status_fist)

text \<open>
  C9. With index and middle finger extended alone and their tips between 0.05 and 0.08
  apart (bounds included), no test holds and the result is \<open>None\<close>.
\<close>

theorem recognize_sign_U_V_gap:
  "get_finger_status landmarks = Inr [0, 1, 1, 0, 0] \<Longrightarrow>
   0.05 \<le> get_distance (landmarks ! 8) (landmarks ! 12) \<Longrightarrow>
   get_distance (landmarks ! 8) (landmarks ! 12) \<le> 0.08 \<Longrightarrow>
   recognize_sign landmarks = Inr None"
  by (auto simp add: recognize_sign_def Let_def)

theorem recognize_sign_U_V_gap_witness:
  "get_finger_status hand_gap = Inr [0, 1, 1, 0, 0]
   \<and> get_distance (hand_gap ! 8) (hand_gap ! 12) = 0.06
   \<and> recognize_sign hand_gap = Inr None"
  using recognize_sign_U_V_gap [of hand_gap]
  by (simp add: finger_status_gap distance_gap)

text \<open>
  C4, as the claim states it, fails: no landmark list satisfies the test for C (at least
  three fingers, thumb and index tips more than 0.10 and less than 0.25 apart) together
  with the test for O (at least three fingers, the tips less than 0.08 apart).
\<close>

theorem rule_C_rule_O_both_counterexample:
  "\<not> (\<exists>landmarks fingers. get_finger_status landmarks = Inr fingers
        \<and> (sum_list fingers \<ge> 3 \<and> get_distance (landmarks ! 4) (landmarks ! 8) > 0.1
             \<and> get_distance (landmarks ! 4) (landmarks ! 8) < 0.25)
        \<and> (sum_list fingers \<ge> 3 \<and> get_distance (landmarks ! 4) (landmarks ! 8) < 0.08))"
  by auto

text \<open>
  C4, amended. The tests for C and for O never hold together. The test for C comes
  first: a list that satisfies it and is not the B pattern is classified C, and a list
  classified O satisfies the test for O and not the one for C.
\<close>

theorem recognize_sign_C_before_O:
  "\<not> ((sum_list fingers \<ge> 3 \<and> get_distance (landmarks ! 4) (landmarks ! 8) > 0.1
          \<and> get_distance (landmarks ! 4) (landmarks ! 8) < 0.25)
       \<and> (sum_list fingers \<ge> 3 \<and> get_distance (landmarks ! 4) (landmarks ! 8) < 0.08))
   \<and> (get_finger_status landmarks = Inr fingers \<and> fingers \<noteq> [0, 1, 1, 1, 1]
        \<and> sum_list fingers \<ge> 3 \<and> get_distance (landmarks ! 4) (landmarks ! 8) > 0.1
        \<and> get_distance (landmarks ! 4) (landmarks ! 8) < 0.25
      \<longrightarrow> recognize_sign landmarks = Inr (Some ''C''))
   \<and> (get_finger_status landmarks = Inr fingers \<and> recognize_sign landmarks = Inr (Some ''O'')
      \<longrightarrow> sum_list fingers \<ge> 3 \<and> get_distance (landmarks ! 4) (landmarks ! 8) < 0.08
          \<and> \<not> get_distance (landmarks ! 4) (landmarks ! 8) > 0.1)"
proof (intro conjI impI)
  show "\<not> ((sum_list fingers \<ge> 3 \<and> get_distance (landmarks ! 4) (landmarks ! 8) > 0.1
          \<and> get_distance (landmarks ! 4) (landmarks ! 8) < 0.25)
       \<and> (sum_list fingers \<ge> 3 \<and> get_distance (landmarks ! 4) (landmarks ! 8) < 0.08))"
    by auto
next
  assume "get_finger_status landmarks = Inr fingers \<and> fingers \<noteq> [0, 1, 1, 1, 1]
        \<and> sum_list fingers \<ge> 3 \<and> get_distance (landmarks ! 4) (landmarks ! 8) > 0.1
        \<and> get_distance (landmarks ! 4) (landmarks ! 8) < 0.25"
  then show "recognize_sign landmarks = Inr (Some ''C'')"
    by (simp add: recognize_sign_C_rule)
next
  assume a: "get_finger_status landmarks = Inr fingers
               \<and> recognize_sign landmarks = Inr (Some ''O'')"
  then have o: "sum_list fingers \<ge> 3 \<and> get_distance (landmarks ! 4) (landmarks ! 8) < 0.08"
    by (intro recognize_sign_O_only) simp_all
  from o show "sum_list fingers \<ge> 3" by simp
  from o show "get_distance (landmarks ! 4) (landmarks ! 8) < 0.08" by simp
  from o show "\<not> get_distance (landmarks ! 4) (landmarks ! 8) > 0.1" by simp
qed

theorem recognize_sign_C_before_O_witness:
  "get_finger_status hand_C = Inr [1, 1, 1, 0, 0]
   \<and> get_distance (hand_C ! 4) (hand_C ! 8) = 0.2
   \<and> recognize_sign hand_C = Inr (Some ''C'')"
  using recognize_sign_C_before_O [of "[1, 1, 1, 0, 0]" hand_C]
  by (simp add: finger_status_C distance_C)


section \<open>The recognition loop\<close>

lemma update_frame_hold_survives_no_match:
  assumes "running self" and "enabled self"
    and "last_sign (recognizer self) = Some s" and "s \<noteq> []"
    and "cooldown (recognizer self) \<noteq> 0"
    and "recognize_sign landmarks = Inr None"
    and "recognize_sign landmarks' = Inr (Some s)"
    and "cooldown (recognizer self) \<le> t_ready' - last_sign_time (recognizer self)"
  shows "update_frame self
           [Some [(landmarks, t_hold, t_ready)], Some [(landmarks', t_hold', t_ready')]]
         = Inr (add_sign
             (self\<lparr>current_sign := Some s,
                   hold_progress :=
                     min 100 ((t_hold' - last_sign_time (recognizer self))
                                / cooldown (recognizer self) * 100),
                   recognizer := (recognizer self)\<lparr>last_sign_time := t_ready'\<rparr>\<rparr>)
             s)"
  using assms
  by (simp add: update_frame_pass_def update_frame_hand_def is_sign_ready_def)

text \<open>
  C6. The claim asks that a frame with no match resets the hold, so that the sign coming
  back starts a fresh hold. The loop calls \<open>is_sign_ready\<close> only for a recognised sign,
  so it does not: with recognition on, a frame classified A at time 0 and then a frame
  with no match at time 1 leave A as the recognizer's tracked sign, with hold start 0,
  and only the displayed sign is cleared. When A comes back at time 1.5 it is added to
  the text at once, though it has been held for no time since the gap.
\<close>

theorem update_frame_no_match_keeps_old_hold:
  "update_frame (translator_init\<lparr>running := True, enabled := True\<rparr>)
      [Some [(hand_A, 0, 0)], Some [(hand_middle, 1, 1)]]
     = Inr (translator_init
         \<lparr>running := True, enabled := True,
          recognizer := recognizer_init\<lparr>last_sign := Some ''A'', last_sign_time := 0\<rparr>,
          current_sign := None\<rparr>)
   \<and> update_frame (translator_init\<lparr>running := True, enabled := True\<rparr>)
      [Some [(hand_A, 0, 0)], Some [(hand_middle, 1, 1)], Some [(hand_A, 1.5, 1.5)]]
     = Inr (translator_init
         \<lparr>running := True, enabled := True,
          recognizer := recognizer_init\<lparr>last_sign := Some ''A'', last_sign_time := 1.5\<rparr>,
          current_text := ''A'', current_sign := Some ''A'', hold_progress := 100,
          total_signs := 1, sign_history := [''A'']\<rparr>)"
  by (simp add: update_frame_pass_def update_frame_hand_def recognize_sign_hand_A
      recognize_sign_hand_middle translator_init_def recognizer_init_def is_sign_ready_def
      add_sign_def deque_append_def)

section \<open>TranscriptAssembler\<close>

text \<open>
  C7, as the claim states it, fails: \<open>clear_text\<close> asks for confirmation first, and when
  the answer is no the text, the sign counter and the history stay as they are.
\<close>

theorem clear_text_declined_counterexample:
  "clear_text
      (backspace
        (add_sign (add_space (add_sign (add_sign translator_init ''A'') ''B'')) ''C''))
      False
     = translator_init
         \<lparr>current_text := ''AB '', total_signs := 3, sign_history := [''A'', ''B'', ''C'']\<rparr>"
  by (simp add: add_sign_def add_space_def backspace_def clear_text_def translator_init_def
      deque_append_def)

text \<open>
  C7, amended. From the empty transcript, adding A, B, a space and C gives the text
  "AB C"; a backspace then gives "AB "; a clear that the user confirms then gives the empty
  text, sign counter 0 and empty history, and a clear that the user declines changes
  nothing.
\<close>

theorem transcript_round_trip:
  "current_text (add_sign (add_space (add_sign (add_sign translator_init ''A'') ''B'')) ''C'')
     = ''AB C''
   \<and> current_text
        (backspace (add_sign (add_space (add_sign (add_sign translator_init ''A'') ''B'')) ''C''))
     = ''AB ''
   \<and> current_text
        (clear_text
          (backspace
            (add_sign (add_space (add_sign (add_sign translator_init ''A'') ''B'')) ''C''))
          True)
     = []
   \<and> total_signs
        (clear_text
          (backspace
            (add_sign (add_space (add_sign (add_sign translator_init ''A'') ''B'')) ''C''))
          True)
     = 0
   \<and> sign_history
        (clear_text
          (backspace
            (add_sign (add_space (add_sign (add_sign translator_init ''A'') ''B'')) ''C''))
          True)
     = []
   \<and> clear_text self False = self"
  by (simp add: add_sign_def add_space_def backspace_def clear_text_def translator_init_def
      deque_append_def)

text \<open>
  C8. The history never holds more than 10 signs: \<open>add_sign\<close> keeps the bound, and from
  any transcript whose history is within it, adding 11 signs one after the other leaves
  the last 10 of them, in the order they were added.
\<close>

theorem sign_history_ring:
  "length (sign_history self) \<le> 10 \<Longrightarrow>
     length (sign_history (add_sign self sign)) \<le> 10
     \<and> length (sign_history (foldl add_sign self signs)) \<le> 10
     \<and> (length signs = 11 \<longrightarrow> sign_history (foldl add_sign self signs) = tl signs)"
proof (intro conjI impI)
  assume b: "length (sign_history self) \<le> 10"
  show "length (sign_history (add_sign self sign)) \<le> 10"
    using b by (simp add: add_sign_def deque_append_bounded)
  have f: "sign_history (foldl add_sign self signs)
             = drop (length (sign_history self) + length signs - 10) (sign_history self @ signs)"
    using b by (simp add: sign_history_foldl foldl_deque_append)
  show "length (sign_history (foldl add_sign self signs)) \<le> 10"
    using b by (simp add: f)
  assume n: "length signs = 11"
  have "sign_history (foldl add_sign self signs) = drop (Suc 0) signs"
    using b n by (simp add: f)
  then show "sign_history (foldl add_sign self signs) = tl signs"
    by (simp add: drop_Suc)
qed

theorem sign_history_ring_witness:
  "length (sign_history translator_init) \<le> 10
   \<and> sign_history (foldl add_sign translator_init
        [''A'', ''B'', ''C'', ''D'', ''E'', ''F'', ''I'', ''K'', ''L'', ''O'', ''U''])
     = [''B'', ''C'', ''D'', ''E'', ''F'', ''I'', ''K'', ''L'', ''O'', ''U'']"
proof -
  have h: "length (sign_history translator_init) \<le> 10"
    by (simp add: translator_init_def)
  from sign_history_ring
    [OF h, of _ "[''A'', ''B'', ''C'', ''D'', ''E'', ''F'', ''I'', ''K'', ''L'', ''O'', ''U'']"] h
  show ?thesis by simp
qed


end
